theory Spec2Isabelle
  imports Main "HOL-Library.Word" "HOL-Library.Signed_Division" "HOL-Library.Monad_Syntax"
begin

section \<open>tinytrace: the span lifecycle engine of \<^verbatim>\<open>include/tinytrace/tinytrace.hpp\<close>\<close>

text \<open>
  The header defines three classes. \<^verbatim>\<open>TraceContext\<close> is the thread-local nesting
  state, \<^verbatim>\<open>TraceBackend\<close> the process-wide output sink and \<^verbatim>\<open>TraceSpan\<close> the RAII
  guard. Every C++ function is embedded under its own name. A function that mutates
  an object takes the object and returns the new one. A \<^verbatim>\<open>void\<close> operation returns
  an \<open>option\<close>: \<open>Some\<close> of the state it leaves behind when it returns normally,
  \<open>None\<close> when it leaves by an exception or by aborting the process.

  In the header the bodies of \<^verbatim>\<open>push_span\<close>, \<^verbatim>\<open>pop_span\<close>, \<^verbatim>\<open>set_output_file\<close>,
  \<^verbatim>\<open>write_span\<close>, \<^verbatim>\<open>flush\<close> and \<^verbatim>\<open>emit_span\<close> are empty blocks. They are embedded
  as written: each returns normally and leaves every object as it found it.
\<close>

subsection \<open>Data\<close>

type_synonym u64 = "64 word"

text \<open>
  \<^verbatim>\<open>time_point\<close> is a point of \<^verbatim>\<open>std::chrono::steady_clock\<close>: a tick count since the
  clock's epoch, one tick a nanosecond, held in a signed 64-bit integer. Durations in
  microseconds are signed 64-bit counts as well. Both are 64-bit words whose value is
  read by \<open>sint\<close>. Overflow of signed arithmetic is undefined in C++; here it wraps
  around, as the machine does. \<^verbatim>\<open>std::thread::id\<close> is an opaque token, here a natural
  number.
\<close>

type_synonym i64 = "64 word"
type_synonym time_point = i64
type_synonym thread = nat

record SpanData =
  name :: string
  span_id :: u64
  parent_id :: u64
  start_time :: time_point
  thread_id :: thread

record TraceContext =
  m_span_stack :: "u64 list"
  m_current_span_id :: u64

text \<open>
  The private members \<^verbatim>\<open>span_stack_\<close>, \<^verbatim>\<open>current_span_id_\<close>, \<^verbatim>\<open>file_output_\<close> and
  \<^verbatim>\<open>use_file_\<close> are the fields \<open>m_span_stack\<close>, \<open>m_current_span_id\<close>,
  \<open>m_file_output\<close> and \<open>m_use_file\<close> (a name cannot end in an underscore here).
  \<^verbatim>\<open>file_output_\<close> is a \<^verbatim>\<open>unique_ptr<ofstream>\<close>: \<open>None\<close> is the null pointer,
  \<open>Some path\<close> a stream opened on \<open>path\<close>.
\<close>

record TraceBackend =
  m_file_output :: "string option"
  m_use_file :: bool

text \<open>
  The state of one process: the function-local static \<^verbatim>\<open>counter\<close> of
  \<^verbatim>\<open>next_span_id\<close>, the \<^verbatim>\<open>thread_local\<close> context of every thread, the static
  backend, and the two places the backend is meant to write to: the characters sent
  to \<^verbatim>\<open>std::cout\<close> so far and the contents of the files, by path.
\<close>

record process =
  counter :: u64
  contexts :: "thread \<Rightarrow> TraceContext"
  backend :: TraceBackend
  cout :: string
  files :: "string \<Rightarrow> string option"

definition TraceContext_init :: TraceContext where
  "TraceContext_init = \<lparr>m_span_stack = [], m_current_span_id = 0\<rparr>"

definition TraceBackend_init :: TraceBackend where
  "TraceBackend_init = \<lparr>m_file_output = None, m_use_file = False\<rparr>"

definition process_init :: process where
  "process_init =
     \<lparr>counter = 1, contexts = (\<lambda>t. TraceContext_init), backend = TraceBackend_init,
      cout = [], files = (\<lambda>path. None)\<rparr>"

subsection \<open>TraceContext\<close>

definition current_span_id :: "TraceContext \<Rightarrow> u64" where
  "current_span_id ctx = m_current_span_id ctx"

text \<open>\<^verbatim>\<open>void push_span(uint64_t span_id) { }\<close>\<close>

definition push_span :: "TraceContext \<Rightarrow> u64 \<Rightarrow> TraceContext option" where
  "push_span ctx sid = Some ctx"

text \<open>\<^verbatim>\<open>void pop_span() { }\<close>\<close>

definition pop_span :: "TraceContext \<Rightarrow> TraceContext option" where
  "pop_span ctx = Some ctx"

subsection \<open>TraceBackend\<close>

text \<open>\<^verbatim>\<open>void set_output_file(const std::string& path) { }\<close>\<close>

definition set_output_file :: "string \<Rightarrow> process \<Rightarrow> process option" where
  "set_output_file path p = Some p"

text \<open>\<^verbatim>\<open>void write_span(const std::string& json) { }\<close>\<close>

definition write_span :: "string \<Rightarrow> process \<Rightarrow> process option" where
  "write_span json p = Some p"

text \<open>\<^verbatim>\<open>void flush() { }\<close>\<close>

definition flush :: "process \<Rightarrow> process option" where
  "flush p = Some p"

definition set_trace_output :: "string \<Rightarrow> process \<Rightarrow> process option" where
  "set_trace_output path p = set_output_file path p"

definition flush_traces :: "process \<Rightarrow> process option" where
  "flush_traces p = flush p"

subsection \<open>TraceSpan\<close>

text \<open>
  \<^verbatim>\<open>counter.fetch_add(1)\<close> is one indivisible read-modify-write of the shared
  counter: it returns the old value and stores the old value plus one, modulo
  \<open>2 ^ 64\<close>. Calls from several threads take effect one after the other in the
  counter's modification order, so a run of the process is a sequence of such steps.
\<close>

definition next_span_id :: "process \<Rightarrow> u64 \<times> process" where
  "next_span_id p = (counter p, p\<lparr>counter := counter p + 1\<rparr>)"

text \<open>
  \<^verbatim>\<open>std::chrono::duration_cast<microseconds>\<close> of a nanosecond count: the signed
  64-bit division of C++ by 1000, which truncates towards zero.
\<close>

definition duration_cast_us :: "i64 \<Rightarrow> i64" where
  "duration_cast_us ticks = word_of_int (sint ticks sdiv 1000)"

text \<open>\<^verbatim>\<open>void emit_span(duration_us duration) { }\<close>\<close>

definition emit_span :: "SpanData \<Rightarrow> i64 \<Rightarrow> process \<Rightarrow> process option" where
  "emit_span data duration p = Some p"

text \<open>
  The constructor, called on thread \<open>t\<close> when the steady clock reads \<open>now\<close>. The
  members of \<^verbatim>\<open>data_\<close> are initialised in the order of the braced list: the id is
  allocated before the context is read. The guard is its \<^verbatim>\<open>data_\<close>; the accessors
  \<^verbatim>\<open>span_id()\<close> and \<^verbatim>\<open>parent_id()\<close> are the fields of that record.
\<close>

definition TraceSpan :: "string \<Rightarrow> thread \<Rightarrow> time_point \<Rightarrow> process \<Rightarrow> (SpanData \<times> process) option" where
  "TraceSpan nm t now p =
     (let (sid, p1) = next_span_id p;
          data = \<lparr>name = nm, span_id = sid,
                  parent_id = current_span_id (contexts p1 t),
                  start_time = now, thread_id = t\<rparr>
      in do {
        ctx \<leftarrow> push_span (contexts p1 t) (span_id data);
        Some (data, p1\<lparr>contexts := (contexts p1)(t := ctx)\<rparr>)
      })"

text \<open>
  The local \<^verbatim>\<open>duration\<close> of the destructor:
  \<^verbatim>\<open>duration_cast<duration_us>(end_time - data_.start_time)\<close>.
\<close>

definition span_duration :: "SpanData \<Rightarrow> time_point \<Rightarrow> i64" where
  "span_duration data end_time = duration_cast_us (end_time - start_time data)"

text \<open>
  The body of the destructor, run on thread \<open>t\<close> when the steady clock reads
  \<open>end_time\<close>. Its last statement is the call \<^verbatim>\<open>emit_span(duration)\<close>; the function
  called there is the parameter \<open>emit\<close>, so that what the destructor hands over can
  be stated whatever that function does with it. The destructor itself is the body
  with \<^verbatim>\<open>emit_span\<close> in that place.
\<close>

definition TraceSpan_dtor_with ::
  "(SpanData \<Rightarrow> i64 \<Rightarrow> process \<Rightarrow> 'a option) \<Rightarrow> SpanData \<Rightarrow> thread \<Rightarrow> time_point \<Rightarrow> process \<Rightarrow> 'a option" where
  "TraceSpan_dtor_with emit data t end_time p =
     (let duration = span_duration data end_time
      in do {
        ctx \<leftarrow> pop_span (contexts p t);
        emit data duration (p\<lparr>contexts := (contexts p)(t := ctx)\<rparr>)
      })"

definition TraceSpan_dtor :: "SpanData \<Rightarrow> thread \<Rightarrow> time_point \<Rightarrow> process \<Rightarrow> process option" where
  "TraceSpan_dtor data t end_time p = TraceSpan_dtor_with emit_span data t end_time p"

text \<open>\<open>allocs n\<close>: \<open>n\<close> calls of \<^verbatim>\<open>next_span_id\<close> one after the other, with the ids in call order.\<close>

fun allocs :: "nat \<Rightarrow> process \<Rightarrow> u64 list \<times> process" where
  "allocs 0 p = ([], p)"
| "allocs (Suc n) p =
     (let (sid, p1) = next_span_id p; (sids, p2) = allocs n p1 in (sid # sids, p2))"

section \<open>Closed forms of the operations\<close>

text \<open>
  With empty \<^verbatim>\<open>push_span\<close>, \<^verbatim>\<open>pop_span\<close> and \<^verbatim>\<open>emit_span\<close>, the constructor only
  advances the counter and the destructor changes nothing at all.
\<close>

lemma TraceSpan_eq:
  "TraceSpan nm t now p =
     Some (\<lparr>name = nm, span_id = counter p,
            parent_id = m_current_span_id (contexts p t),
            start_time = now, thread_id = t\<rparr>,
           p\<lparr>counter := counter p + 1\<rparr>)"
  by (simp add: TraceSpan_def next_span_id_def push_span_def current_span_id_def)

lemma TraceSpan_dtor_with_eq:
  "TraceSpan_dtor_with emit data t end_time p = emit data (span_duration data end_time) p"
  by (simp add: TraceSpan_dtor_with_def pop_span_def)

lemma TraceSpan_dtor_eq: "TraceSpan_dtor data t end_time p = Some p"
  by (simp add: TraceSpan_dtor_def TraceSpan_dtor_with_eq emit_span_def)




lemma allocs_Suc_unfold:
  "allocs (Suc n) p =
     (counter p # fst (allocs n (p\<lparr>counter := counter p + 1\<rparr>)),
      snd (allocs n (p\<lparr>counter := counter p + 1\<rparr>)))"
  by (simp add: next_span_id_def split_beta)

text \<open>The \<open>i\<close>-th call (from 0) returns the starting counter plus \<open>i\<close>, modulo \<open>2 ^ 64\<close>.\<close>

lemma allocs_sids: "fst (allocs n p) = map (\<lambda>i. counter p + of_nat i) [0..<n]"
proof (induction n arbitrary: p)
  case 0
  show ?case by simp
next
  case (Suc n)
  have "fst (allocs (Suc n) p) = counter p # map (\<lambda>i. counter p + 1 + of_nat i) [0..<n]"
    by (simp only: allocs_Suc_unfold fst_conv Suc.IH) simp
  also have "\<dots> = map (\<lambda>i. counter p + of_nat i) [0..<Suc n]"
    by (simp add: upt_rec [of 0 "Suc n"] map_Suc_upt [symmetric] del: upt_Suc add: ac_simps)
  finally show ?case .
qed

lemma allocs_counter: "counter (snd (allocs n p)) = counter p + of_nat n"
proof (induction n arbitrary: p)
  case 0
  show ?case by simp
next
  case (Suc n)
  show ?case by (simp only: allocs_Suc_unfold snd_conv Suc.IH) simp
qed

lemma allocs_hd: "0 < n \<Longrightarrow> hd (fst (allocs n p)) = counter p"
proof (cases n)
  case 0
  moreover assume "0 < n"
  ultimately show ?thesis by simp
next
  case (Suc m)
  then show ?thesis by (simp only: allocs_Suc_unfold fst_conv list.sel)
qed

lemma allocs_init_sids: "fst (allocs n process_init) = map of_nat [1..<Suc n]"
proof -
  have "fst (allocs n process_init) = map (\<lambda>i. (1::u64) + of_nat i) [0..<n]"
    by (simp add: allocs_sids process_init_def)
  also have "\<dots> = map (\<lambda>i. of_nat (Suc i)) [0..<n]"
    by simp
  also have "\<dots> = map of_nat (map Suc [0..<n])"
    by (simp only: map_map comp_def)
  also have "\<dots> = map of_nat [1..<Suc n]"
    by (simp only: map_Suc_upt One_nat_def)
  finally show ?thesis .
qed

lemma of_nat_u64_less: "i < j \<Longrightarrow> j < 2 ^ 64 \<Longrightarrow> (of_nat i :: u64) < of_nat j"
  by (simp add: word_less_nat_alt unat_of_nat)

lemma sorted_small_ids:
  assumes "n < 2 ^ 64"
  shows "sorted_wrt (<) (map (of_nat :: nat \<Rightarrow> u64) [1..<Suc n])"
proof -
  have "sorted_wrt (\<lambda>i j. (of_nat i :: u64) < of_nat j) [1..<Suc n]"
  proof (rule sorted_wrt_mono_rel [of _ "(<)"])
    fix i j assume "i \<in> set [1..<Suc n]" "j \<in> set [1..<Suc n]" "i < j"
    then show "(of_nat i :: u64) < of_nat j"
      using assms by (intro of_nat_u64_less) auto
  next
    show "sorted_wrt (<) [1..<Suc n]" by (rule sorted_wrt_upt)
  qed
  then show ?thesis by (simp only: sorted_wrt_map)
qed

section \<open>Parent attribution\<close>

text \<open>
  C1. The claim: the \<^verbatim>\<open>parent_id\<close> of a span is the \<^verbatim>\<open>span_id\<close> of the innermost span
  still active on its thread when it was created, or 0 for a root span. The header
  does not do this. In the first test of \<^verbatim>\<open>tests/test_nested_spans.cpp\<close> a span
  \<^verbatim>\<open>parent_span\<close> is created on a fresh process and, while it is alive, a span
  \<^verbatim>\<open>child_span\<close> on the same thread. The parent gets id 1 and the child id 2, and the
  test requires \<^verbatim>\<open>child.parent_id() == parent.span_id()\<close>; the child's
  \<^verbatim>\<open>parent_id\<close> is 0, because \<^verbatim>\<open>push_span\<close> never stores the id it is given.
\<close>

theorem nested_child_parent_id_is_zero:
  "do { (parent, p1) \<leftarrow> TraceSpan ''parent_span'' 0 100 process_init;
        (child, p2) \<leftarrow> TraceSpan ''child_span'' 0 200 p1;
        Some (span_id parent, parent_id parent, span_id child, parent_id child) }
   = Some (1, 0, 2, 0)"
  by (simp add: TraceSpan_eq process_init_def TraceContext_init_def)

section \<open>The identity allocator\<close>

text \<open>
  C2, as stated, asks every call of \<^verbatim>\<open>next_span_id\<close> to return more than every call
  before it and never 0. The counter is a \<^verbatim>\<open>uint64_t\<close> that starts at 1 and wraps:
  of \<open>2 ^ 64\<close> calls in a row on a fresh process, the last returns 0, which is
  neither nonzero nor above the 1 returned by the first.
\<close>

theorem next_span_id_wraps_to_zero:
  "last (fst (allocs (2 ^ 64) process_init)) = 0
   \<and> hd (fst (allocs (2 ^ 64) process_init)) = 1"
proof -
  have "hd (fst (allocs (2 ^ 64) process_init)) = counter process_init"
    by (rule allocs_hd) simp
  moreover have "last (fst (allocs (2 ^ 64) process_init)) = 0"
    by (simp add: allocs_sids process_init_def last_map)
  ultimately show ?thesis by (simp add: process_init_def)
qed

text \<open>
  C2, amended: as long as fewer than \<open>2 ^ 64\<close> ids have been allocated since the
  process started, the \<open>k\<close>-th call of \<^verbatim>\<open>next_span_id\<close> returns \<open>k\<close>, whichever
  threads make the calls. So the first id is 1, every id is strictly greater than
  every id returned before it, the ids are pairwise distinct, and none is 0.
\<close>

theorem next_span_id_strictly_increasing:
  assumes "n < 2 ^ 64"
  shows "fst (allocs n process_init) = map of_nat [1..<Suc n]
       \<and> sorted_wrt (<) (fst (allocs n process_init))
       \<and> distinct (fst (allocs n process_init))
       \<and> 0 \<notin> set (fst (allocs n process_init))
       \<and> (0 < n \<longrightarrow> hd (fst (allocs n process_init)) = 1)"
proof -
  let ?ids = "fst (allocs n process_init)"
  have eq: "?ids = map of_nat [1..<Suc n]" by (rule allocs_init_sids)
  have srt: "sorted_wrt (<) ?ids"
    unfolding eq using assms by (rule sorted_small_ids)
  have dist: "distinct ?ids"
    using srt by (simp add: strict_sorted_iff)
  have nz: "0 \<notin> set ?ids"
  proof
    assume "0 \<in> set ?ids"
    then obtain i where i: "1 \<le> i" "i \<le> n" "(of_nat i :: u64) = 0"
      unfolding eq by auto
    from i(2) assms have "unat (of_nat i :: u64) = i"
      by (simp add: unat_of_nat)
    with i(1,3) show False by simp
  qed
  have hd1: "0 < n \<longrightarrow> hd ?ids = 1"
  proof
    assume "0 < n"
    then have "[1..<Suc n] = 1 # [Suc 1..<Suc n]"
      by (intro upt_conv_Cons) simp
    then have "?ids = of_nat 1 # map of_nat [Suc 1..<Suc n]"
      by (simp only: eq list.map)
    then show "hd ?ids = 1" by (simp only: list.sel of_nat_1)
  qed
  from eq srt dist nz hd1 show ?thesis by blast
qed

theorem next_span_id_strictly_increasing_witness:
  "(3::nat) < 2 ^ 64 \<and> (0::nat) < 3
   \<and> fst (allocs 3 process_init) = [1, 2, 3]
   \<and> sorted_wrt (<) (fst (allocs 3 process_init))
   \<and> hd (fst (allocs 3 process_init)) = 1"
proof -
  have l: "[1..<Suc 3] = [1, 2, 3::nat]" by code_simp
  show ?thesis using next_span_id_strictly_increasing [of 3] unfolding l by simp
qed

section \<open>The thread nesting context\<close>

text \<open>
  C4. The claim: after \<^verbatim>\<open>push_span(id)\<close> the context's \<^verbatim>\<open>current_span_id()\<close> is
  \<open>id\<close>, and on an empty context it is 0. The second half holds. The first does
  not: \<^verbatim>\<open>push_span\<close> has an empty body, so on the context a thread starts with,
  \<^verbatim>\<open>push_span(1)\<close> leaves \<^verbatim>\<open>current_span_id()\<close> at 0.
\<close>

theorem push_span_leaves_current_zero:
  "map_option current_span_id (push_span TraceContext_init 1) = Some 0
   \<and> map_option m_span_stack (push_span TraceContext_init 1) = Some []
   \<and> current_span_id TraceContext_init = 0"
  by (simp add: push_span_def current_span_id_def TraceContext_init_def)


text \<open>
  C6, as stated, has \<^verbatim>\<open>pop_span\<close> signal an error exactly when the top of the stack
  is not the id being popped, in particular on an empty stack. On the empty context
  \<^verbatim>\<open>pop_span\<close> returns normally.
\<close>

theorem pop_span_empty_returns_normally:
  "pop_span TraceContext_init = Some TraceContext_init"
  by (simp add: pop_span_def)

text \<open>
  C6, amended: \<^verbatim>\<open>pop_span\<close> takes no id and has no error path; in every state of the
  context, the empty stack included, it returns normally and signals nothing.
\<close>

theorem pop_span_never_signals: "pop_span ctx \<noteq> None"
  by (simp add: pop_span_def)

section \<open>Emission\<close>

text \<open>
  C3. The claim: when a guard is destroyed, exactly one completed record is handed
  to the sink. The destructor calls \<^verbatim>\<open>emit_span\<close>, whose body is empty: no record
  is built and \<^verbatim>\<open>write_span\<close> is not called. For the span of the test
  \<^verbatim>\<open>TraceSpan RAII cleanup on exception\<close>, created and destroyed on a fresh process,
  nothing has reached \<^verbatim>\<open>std::cout\<close> and the backend is as it was; and for every
  guard, thread, time and process, the destructor leaves the whole process as it
  found it.
\<close>

theorem destructor_emits_no_record:
  "do { (span, p1) \<leftarrow> TraceSpan ''will_throw'' 0 100 process_init;
        p2 \<leftarrow> TraceSpan_dtor span 0 250 p1;
        Some (cout p2, backend p2) }
     = Some ([], TraceBackend_init)
   \<and> TraceSpan_dtor data t end_time p = Some p"
  by (simp add: TraceSpan_eq TraceSpan_dtor_eq process_init_def)

text \<open>
  C7. The claim: the sink turns each record into one line, name first, then
  \<^verbatim>\<open>span_id\<close>, \<^verbatim>\<open>parent_id\<close>, \<^verbatim>\<open>duration_us\<close> and \<^verbatim>\<open>thread_id\<close>, adds a newline and
  writes it to \<^verbatim>\<open>std::cout\<close> or to the configured file. \<^verbatim>\<open>write_span\<close>,
  \<^verbatim>\<open>set_output_file\<close> and \<^verbatim>\<open>emit_span\<close> have empty bodies. A line passed to
  \<^verbatim>\<open>write_span\<close> on a fresh process leaves \<^verbatim>\<open>std::cout\<close> empty. In the test
  \<^verbatim>\<open>Trace output can be redirected to file\<close> (redirect, one span, flush) the file
  \<^verbatim>\<open>test_trace_output.jsonl\<close> does not exist afterwards, where the test requires it to
  be readable, and nothing went to \<^verbatim>\<open>std::cout\<close> either.
\<close>

theorem write_span_writes_nothing:
  "map_option cout (write_span ''file_output_test 1 0 1000 0'' process_init) = Some []
   \<and> do { p1 \<leftarrow> set_trace_output ''test_trace_output.jsonl'' process_init;
          (span, p2) \<leftarrow> TraceSpan ''file_output_test'' 0 100 p1;
          p3 \<leftarrow> TraceSpan_dtor span 0 1000100 p2;
          p4 \<leftarrow> flush_traces p3;
          Some (files p4 ''test_trace_output.jsonl'', cout p4) }
     = Some (None, [])"
  by (simp add: write_span_def set_trace_output_def set_output_file_def flush_traces_def
      flush_def TraceSpan_eq TraceSpan_dtor_eq process_init_def)

section \<open>Durations\<close>






end
